theory Spec2Isabelle
  imports Main "HOL-Library.Word" "HOL-Library.Monad_Syntax"
begin

section \<open>JavaScript numbers\<close>

text \<open>
  The component computes with JavaScript numbers, which are IEEE-754 binary64 values.
  A number is modelled by its 64-bit pattern (sign, 11 exponent bits, 52 fraction
  bits), so that storing it into a buffer and loading it again is a matter of bytes.
  Arithmetic is the IEEE one: the exact rational result, rounded to the nearest
  representable value, ties to the even significand.  The float32 format of the schema's
  \<open>float\<close> fields is the same construction with 8 exponent bits and 23 fraction bits.
  The loop counter, the ids and the ages are integers far below \<open>2^53\<close>, where binary64
  arithmetic is exact; they are modelled as \<open>nat\<close> / \<open>int\<close>.
\<close>

type_synonym byte = "8 word"
type_synonym js_number = "64 word"
type_synonym float32 = "32 word"

text \<open>\<open>flog2 n\<close>: the number of halvings that take \<open>n\<close> below 2, the floor of its binary logarithm.\<close>

fun flog2_acc :: "nat \<Rightarrow> nat \<Rightarrow> nat" where
  "flog2_acc n k = (if n < 2 then k else flog2_acc (n div 2) (k + 1))"

declare flog2_acc.simps [simp del]

definition flog2 :: "nat \<Rightarrow> nat" where
  "flog2 n = flog2_acc n 0"

text \<open>
  Exact values are fractions \<open>p / q\<close> of integers.  \<open>scaled_le q k p\<close> is
  \<open>q * 2^k \<le> p\<close> for an integer \<open>k\<close>; \<open>ilog2 p q\<close> is the largest \<open>e\<close> with
  \<open>2^e \<le> p / q\<close>, for positive \<open>p\<close> and \<open>q\<close>.
\<close>

definition scaled_le :: "nat \<Rightarrow> int \<Rightarrow> nat \<Rightarrow> bool" where
  "scaled_le q k p = (if 0 \<le> k then q * 2 ^ nat k \<le> p else q \<le> p * 2 ^ nat (- k))"

definition ilog2_near :: "nat \<Rightarrow> nat \<Rightarrow> int \<Rightarrow> int" where
  "ilog2_near p q k = (if scaled_le q k p then k else k - 1)"

definition ilog2 :: "nat \<Rightarrow> nat \<Rightarrow> int" where
  "ilog2 p q = ilog2_near p q (int (flog2 p) - int (flog2 q))"

text \<open>The integer nearest to \<open>n / d\<close>, ties to the even one.\<close>

definition round_half_even :: "nat \<Rightarrow> nat \<Rightarrow> nat" where
  "round_half_even n d =
     (if 2 * (n mod d) < d then n div d
      else if d < 2 * (n mod d) then n div d + 1
      else if even (n div d) then n div d else n div d + 1)"

text \<open>
  \<open>fp_round m w p q\<close>: the bits (without the sign) of the value nearest to \<open>p / q > 0\<close>
  in the format with \<open>m\<close> fraction bits and \<open>w\<close> exponent bits; subnormals and the
  overflow to infinity included.  \<open>fp_value m w b\<close>: the value of the finite bits \<open>b\<close>,
  as a fraction.
\<close>

definition fp_mantissa :: "nat \<Rightarrow> int \<Rightarrow> nat \<Rightarrow> nat \<Rightarrow> nat" where
  "fp_mantissa m e p q =
     (if e < int m then round_half_even (p * 2 ^ nat (int m - e)) q
      else round_half_even p (q * 2 ^ nat (e - int m)))"

definition fp_emin :: "nat \<Rightarrow> int" where
  "fp_emin w = 2 - 2 ^ (w - 1)"

definition fp_round_at :: "nat \<Rightarrow> nat \<Rightarrow> nat \<Rightarrow> nat \<Rightarrow> int \<Rightarrow> nat" where
  "fp_round_at m w p q e =
     min (nat (e - fp_emin w) * 2 ^ m + fp_mantissa m e p q) ((2 ^ w - 1) * 2 ^ m)"

definition fp_round :: "nat \<Rightarrow> nat \<Rightarrow> nat \<Rightarrow> nat \<Rightarrow> nat" where
  "fp_round m w p q = fp_round_at m w p q (max (ilog2 p q) (fp_emin w))"

definition fp_scale :: "nat \<Rightarrow> int \<Rightarrow> nat \<times> nat" where
  "fp_scale sig e = (if 0 \<le> e then (sig * 2 ^ nat e, 1) else (sig, 2 ^ nat (- e)))"

definition fp_value :: "nat \<Rightarrow> nat \<Rightarrow> nat \<Rightarrow> nat \<times> nat" where
  "fp_value m w b =
     (if b div 2 ^ m = 0 then fp_scale (b mod 2 ^ m) (fp_emin w - int m)
      else fp_scale (2 ^ m + b mod 2 ^ m) (int (b div 2 ^ m) - 1 + fp_emin w - int m))"

definition num_sign :: "js_number \<Rightarrow> bool" where
  "num_sign x = (2 ^ 63 \<le> unat x)"

definition num_mag :: "js_number \<Rightarrow> nat" where
  "num_mag x = unat x mod 2 ^ 63"

definition num_inf_bits :: nat where
  "num_inf_bits = 2047 * 2 ^ 52"

definition num_is_nan :: "js_number \<Rightarrow> bool" where
  "num_is_nan x = (num_inf_bits < num_mag x)"

definition num_is_inf :: "js_number \<Rightarrow> bool" where
  "num_is_inf x = (num_mag x = num_inf_bits)"

definition num_is_zero :: "js_number \<Rightarrow> bool" where
  "num_is_zero x = (num_mag x = 0)"

definition num_make :: "bool \<Rightarrow> nat \<Rightarrow> js_number" where
  "num_make s b = of_nat (b + (if s then 2 ^ 63 else 0))"

definition num_nan :: js_number where
  "num_nan = of_nat (4095 * 2 ^ 51)"

text \<open>
  The number nearest to the fraction \<open>n / d\<close> (\<open>d > 0\<close>): a decimal literal such as
  \<open>1.6\<close> is \<open>num_of_frac 16 10\<close>, an integer \<open>i\<close> is \<open>num_of_int i\<close>.
\<close>

definition num_of_frac :: "int \<Rightarrow> nat \<Rightarrow> js_number" where
  "num_of_frac n d = (if n = 0 then 0 else num_make (n < 0) (fp_round 52 11 (nat \<bar>n\<bar>) d))"

definition num_of_int :: "int \<Rightarrow> js_number" where
  "num_of_int i = num_of_frac i 1"

text \<open>The magnitude of a finite number, as a fraction.\<close>

definition num_value :: "js_number \<Rightarrow> nat \<times> nat" where
  "num_value x = fp_value 52 11 (num_mag x)"

definition signed :: "bool \<Rightarrow> nat \<Rightarrow> int" where
  "signed s n = (if s then - int n else int n)"

text \<open>JavaScript's \<open>a + b\<close>, \<open>a - b\<close> and \<open>a / b\<close> on numbers.\<close>

definition num_add :: "js_number \<Rightarrow> js_number \<Rightarrow> js_number" where
  "num_add a b =
     (if num_is_nan a \<or> num_is_nan b then num_nan
      else if num_is_inf a then (if num_is_inf b \<and> num_sign a \<noteq> num_sign b then num_nan else a)
      else if num_is_inf b then b
      else if num_is_zero a \<and> num_is_zero b then num_make (num_sign a \<and> num_sign b) 0
      else if num_is_zero b then a
      else if num_is_zero a then b
      else num_of_frac (signed (num_sign a) (fst (num_value a) * snd (num_value b))
                        + signed (num_sign b) (fst (num_value b) * snd (num_value a)))
                       (snd (num_value a) * snd (num_value b)))"

definition num_neg :: "js_number \<Rightarrow> js_number" where
  "num_neg a = (if num_is_nan a then num_nan else num_make (\<not> num_sign a) (num_mag a))"

definition num_sub :: "js_number \<Rightarrow> js_number \<Rightarrow> js_number" where
  "num_sub a b = num_add a (num_neg b)"

definition num_div :: "js_number \<Rightarrow> js_number \<Rightarrow> js_number" where
  "num_div a b =
     (if num_is_nan a \<or> num_is_nan b then num_nan
      else if num_is_inf a then
             (if num_is_inf b then num_nan else num_make (num_sign a \<noteq> num_sign b) num_inf_bits)
      else if num_is_inf b then num_make (num_sign a \<noteq> num_sign b) 0
      else if num_is_zero b then
             (if num_is_zero a then num_nan else num_make (num_sign a \<noteq> num_sign b) num_inf_bits)
      else if num_is_zero a then num_make (num_sign a \<noteq> num_sign b) 0
      else num_make (num_sign a \<noteq> num_sign b)
             (fp_round 52 11 (fst (num_value a) * snd (num_value b))
                             (snd (num_value a) * fst (num_value b))))"

text \<open>
  Storing a number into a float32 slot rounds it to the nearest float32 value; loading
  a float32 widens it to a number without any loss.
\<close>

definition f32_sign :: "float32 \<Rightarrow> bool" where
  "f32_sign x = (2 ^ 31 \<le> unat x)"

definition f32_mag :: "float32 \<Rightarrow> nat" where
  "f32_mag x = unat x mod 2 ^ 31"

definition f32_inf_bits :: nat where
  "f32_inf_bits = 255 * 2 ^ 23"

definition f32_make :: "bool \<Rightarrow> nat \<Rightarrow> float32" where
  "f32_make s b = of_nat (b + (if s then 2 ^ 31 else 0))"

definition f32_of_num :: "js_number \<Rightarrow> float32" where
  "f32_of_num x =
     (if num_is_nan x then of_nat (511 * 2 ^ 22)
      else if num_is_inf x then f32_make (num_sign x) f32_inf_bits
      else if num_is_zero x then f32_make (num_sign x) 0
      else f32_make (num_sign x) (fp_round 23 8 (fst (num_value x)) (snd (num_value x))))"

definition num_of_f32 :: "float32 \<Rightarrow> js_number" where
  "num_of_f32 x =
     (if f32_inf_bits < f32_mag x then num_nan
      else if f32_mag x = f32_inf_bits then num_make (f32_sign x) num_inf_bits
      else if f32_mag x = 0 then num_make (f32_sign x) 0
      else num_make (f32_sign x)
             (fp_round 52 11 (fst (fp_value 23 8 (f32_mag x))) (snd (fp_value 23 8 (f32_mag x)))))"

text \<open>\<open>Math.fround\<close>: what a number becomes on its way through a float32 slot.\<close>

definition fround :: "js_number \<Rightarrow> js_number" where
  "fround x = num_of_f32 (f32_of_num x)"

section \<open>The generated dataset\<close>

text \<open>
  \<open>generateDataset\<close> of \<open>FlatBufferDemo.vue\<close>.  A record of the dataset is a plain
  object; the record type is shared with the decoded objects, whose \<open>location\<close> may be
  absent, hence the type parameter.  Strings are sequences of bytes (the spec's
  ``length-prefixed byte sequence''); the generated strings are ASCII.
\<close>

record location_obj =
  latitude :: js_number
  longitude :: js_number

record 'l person_rec =
  id_val :: int
  name :: string
  email :: string
  age :: int
  height :: js_number
  isVerified :: bool
  skills :: "string list"
  location :: 'l

type_synonym person_obj = "location_obj person_rec"

text \<open>The decimal digits of a natural number: \<open>`${i}`\<close> for an integer \<open>i\<close>.\<close>

definition digit_char :: "nat \<Rightarrow> char" where
  "digit_char d = ''0123456789'' ! d"

fun decimal :: "nat \<Rightarrow> string" where
  "decimal n = (if n < 10 then [digit_char n]
                else decimal (n div 10) @ [digit_char (n mod 10)])"

declare decimal.simps [simp del]

definition dataset_record :: "nat \<Rightarrow> person_obj" where
  "dataset_record i =
     \<lparr> id_val = int i + 1000000000000,
       name = ''User'' @ decimal i,
       email = ''user'' @ decimal i @ ''@example.com'',
       age = 20 + int (i mod 30),
       height = num_add (num_of_frac 16 10) (num_div (num_of_int (int (i mod 40))) (num_of_int 100)),
       isVerified = (i mod 3 = 0),
       skills = [''JS'', ''TS'', ''Skill'' @ decimal (i mod 10)],
       location =
         \<lparr> latitude = num_add (num_of_int 30) (num_div (num_of_int (int (i mod 100))) (num_of_int 100)),
           longitude = num_add (num_of_int 120) (num_div (num_of_int (int (i mod 100))) (num_of_int 100)) \<rparr> \<rparr>"

text \<open>The loop \<open>for (let i = 0; i < count; i++) dataset.push(...)\<close>.\<close>

fun generate_loop :: "nat \<Rightarrow> nat \<Rightarrow> person_obj list \<Rightarrow> person_obj list" where
  "generate_loop 0 i dataset = dataset"
| "generate_loop (Suc k) i dataset = generate_loop k (Suc i) (dataset @ [dataset_record i])"

definition generateDataset :: "int \<Rightarrow> person_obj list" where
  "generateDataset count = generate_loop (nat count) 0 []"

section \<open>Bytes\<close>

text \<open>
  The byte order of the binary format is fixed little-endian.  \<open>le_bytes n v\<close> are the
  \<open>n\<close> low bytes of \<open>v\<close>, \<open>le_nat\<close> reads them back; \<open>enc_int\<close> and \<open>dec_int\<close> are
  the two's complement variants.
\<close>

primrec le_bytes :: "nat \<Rightarrow> nat \<Rightarrow> byte list" where
  "le_bytes 0 v = []"
| "le_bytes (Suc n) v = of_nat (v mod 256) # le_bytes n (v div 256)"

fun le_nat :: "byte list \<Rightarrow> nat" where
  "le_nat [] = 0"
| "le_nat (b # bs) = unat b + 256 * le_nat bs"

definition enc_int :: "nat \<Rightarrow> int \<Rightarrow> byte list" where
  "enc_int n i = le_bytes n (nat (i mod 256 ^ n))"

definition dec_int :: "byte list \<Rightarrow> int" where
  "dec_int bs = (if 2 * le_nat bs < 256 ^ length bs then int (le_nat bs)
                 else int (le_nat bs) - 256 ^ length bs)"

definition zeros :: "nat \<Rightarrow> byte list" where
  "zeros n = replicate n 0"

definition byte_of_char :: "char \<Rightarrow> byte" where
  "byte_of_char c = of_nat (of_char c)"

definition char_of_byte :: "byte \<Rightarrow> char" where
  "char_of_byte b = char_of (unat b)"

definition enc_f64 :: "js_number \<Rightarrow> byte list" where
  "enc_f64 x = le_bytes 8 (unat x)"

definition dec_f64 :: "byte list \<Rightarrow> js_number" where
  "dec_f64 bs = of_nat (le_nat bs)"

definition enc_f32 :: "js_number \<Rightarrow> byte list" where
  "enc_f32 x = le_bytes 4 (unat (f32_of_num x))"

definition dec_f32 :: "byte list \<Rightarrow> js_number" where
  "dec_f32 bs = num_of_f32 (of_nat (le_nat bs))"

definition enc_bool :: "bool \<Rightarrow> byte list" where
  "enc_bool v = [if v then 1 else 0]"

definition dec_bool :: "byte list \<Rightarrow> bool" where
  "dec_bool bs = (le_nat bs \<noteq> 0)"

section \<open>The errors of the design\<close>

text \<open>
  The first four are the taxonomy of the design; \<open>SyntaxError\<close> and \<open>TypeError\<close> are the
  exceptions of JavaScript's \<open>JSON.parse\<close> and \<open>JSON.stringify\<close>.
\<close>

datatype error = SchemaViolation | BuilderState | CapacityExceeded | CorruptBuffer
  | SyntaxError | TypeError

section \<open>Table Reader\<close>

text \<open>
  Modelled from the spec: the Table Reader (section 4.2; in the repository it is the
  \<open>flatbuffers\<close> package's \<open>ByteBuffer\<close> and the accessors that \<open>flatc\<close> generates into
  \<open>src/flatbuffers/person.ts\<close>, neither of which is among the sources).  A table
  handle is the buffer and the table's position.  Every resolved position is checked
  against the buffer length before it is dereferenced: \<open>None\<close> is that check failing,
  which the Reader reports as \<open>CorruptBuffer\<close>.
\<close>

definition read_bytes :: "byte list \<Rightarrow> nat \<Rightarrow> nat \<Rightarrow> byte list option" where
  "read_bytes B p n = (if p + n \<le> length B then Some (take n (drop p B)) else None)"

definition read_uint :: "nat \<Rightarrow> byte list \<Rightarrow> nat \<Rightarrow> nat option" where
  "read_uint w B p = map_option le_nat (read_bytes B p w)"

definition read_int :: "nat \<Rightarrow> byte list \<Rightarrow> nat \<Rightarrow> int option" where
  "read_int w B p = map_option dec_int (read_bytes B p w)"

text \<open>
  Modelled from the spec: a string, a vector and a nested table are referenced by a
  forward byte offset from the referencing field.
\<close>

definition indirect :: "byte list \<Rightarrow> nat \<Rightarrow> nat option" where
  "indirect B p = map_option (\<lambda>rel. p + rel) (read_uint 4 B p)"

text \<open>
  Modelled from the spec: a table starts with a pointer-sized backward reference to
  its vtable; the vtable lists its own size, the table's size, and one 16-bit entry
  per slot: the field's offset within the table, 0 for an absent field.  A slot
  beyond the vtable's size is absent as well.
\<close>

definition back_ref :: "nat \<Rightarrow> int \<Rightarrow> nat option" where
  "back_ref tpos so = (if so \<le> int tpos then Some (nat (int tpos - so)) else None)"

definition vtable_of :: "byte list \<Rightarrow> nat \<Rightarrow> nat option" where
  "vtable_of B tpos = Option.bind (read_int 4 B tpos) (back_ref tpos)"

definition vtable_entry :: "byte list \<Rightarrow> nat \<Rightarrow> nat \<Rightarrow> nat \<Rightarrow> nat option" where
  "vtable_entry B slot vt vsize =
     (if 2 * slot + 6 \<le> vsize then read_uint 2 B (vt + 4 + 2 * slot) else Some 0)"

definition vtable_lookup :: "byte list \<Rightarrow> nat \<Rightarrow> nat \<Rightarrow> nat option" where
  "vtable_lookup B slot vt = Option.bind (read_uint 2 B vt) (vtable_entry B slot vt)"

definition field_offset :: "byte list \<Rightarrow> nat \<Rightarrow> nat \<Rightarrow> nat option" where
  "field_offset B tpos slot = Option.bind (vtable_of B tpos) (vtable_lookup B slot)"

text \<open>
  Modelled from the spec: \<open>field(table, slotId, expectedKind)\<close>.  An absent field
  yields the declared default without touching the buffer further; a present one is at
  \<open>table-offset + vtable[slotId]\<close>.
\<close>

definition scalar_at :: "nat \<Rightarrow> (byte list \<Rightarrow> 'a) \<Rightarrow> 'a \<Rightarrow> byte list \<Rightarrow> nat \<Rightarrow> nat \<Rightarrow> 'a option" where
  "scalar_at w dec dflt B tpos off =
     (if off = 0 then Some dflt else map_option dec (read_bytes B (tpos + off) w))"

definition field_scalar :: "nat \<Rightarrow> (byte list \<Rightarrow> 'a) \<Rightarrow> 'a \<Rightarrow> byte list \<Rightarrow> nat \<Rightarrow> nat \<Rightarrow> 'a option" where
  "field_scalar w dec dflt B tpos slot =
     Option.bind (field_offset B tpos slot) (scalar_at w dec dflt B tpos)"

definition string_body :: "byte list \<Rightarrow> nat \<Rightarrow> nat \<Rightarrow> string option" where
  "string_body B p n = map_option (map char_of_byte) (read_bytes B (p + 4) n)"

definition read_string :: "byte list \<Rightarrow> nat \<Rightarrow> string option" where
  "read_string B p = Option.bind (read_uint 4 B p) (string_body B p)"

definition string_ref :: "byte list \<Rightarrow> nat \<Rightarrow> string option" where
  "string_ref B p = Option.bind (indirect B p) (read_string B)"

definition string_at :: "byte list \<Rightarrow> nat \<Rightarrow> nat \<Rightarrow> string option" where
  "string_at B tpos off = (if off = 0 then Some [] else string_ref B (tpos + off))"

definition field_string :: "byte list \<Rightarrow> nat \<Rightarrow> nat \<Rightarrow> string option" where
  "field_string B tpos slot = Option.bind (field_offset B tpos slot) (string_at B tpos)"

text \<open>
  A vector or a nested table behind a field: \<open>Some None\<close> when the field is absent,
  \<open>Some (Some p)\<close> with its position otherwise.
\<close>

definition ref_at :: "byte list \<Rightarrow> nat \<Rightarrow> nat \<Rightarrow> nat option option" where
  "ref_at B tpos off = (if off = 0 then Some None else map_option Some (indirect B (tpos + off)))"

definition field_ref :: "byte list \<Rightarrow> nat \<Rightarrow> nat \<Rightarrow> nat option option" where
  "field_ref B tpos slot = Option.bind (field_offset B tpos slot) (ref_at B tpos)"

fun vector_len :: "byte list \<Rightarrow> nat option \<Rightarrow> nat option" where
  "vector_len B None = Some 0"
| "vector_len B (Some vp) = read_uint 4 B vp"

definition vector_item :: "nat \<Rightarrow> nat \<Rightarrow> nat" where
  "vector_item vp j = vp + 4 + 4 * j"

text \<open>Modelled from the spec: \<open>rootTable(buffer)\<close> reads the root-offset pointer at the buffer head.\<close>

definition rootTable :: "byte list \<Rightarrow> nat option" where
  "rootTable B = indirect B 0"

subsection \<open>The accessors of the schema's tables\<close>

text \<open>
  Modelled from the spec: the typed accessors of \<open>Location\<close>, \<open>Person\<close> and
  \<open>PersonList\<close> (generated code, not among the sources).  The slot ids follow the
  order of the fields in the schema (\<open>person.fbs\<close>): \<open>id\<close> 0, \<open>name\<close> 1, \<open>email\<close> 2,
  \<open>age\<close> 3, \<open>height\<close> 4, \<open>is_verified\<close> 5, \<open>skills\<close> 6, \<open>location\<close> 7;
  \<open>latitude\<close> 0, \<open>longitude\<close> 1; \<open>persons\<close> 0.
\<close>

definition location_latitude :: "byte list \<Rightarrow> nat \<Rightarrow> js_number option" where
  "location_latitude B t = field_scalar 8 dec_f64 0 B t 0"

definition location_longitude :: "byte list \<Rightarrow> nat \<Rightarrow> js_number option" where
  "location_longitude B t = field_scalar 8 dec_f64 0 B t 1"

definition person_id :: "byte list \<Rightarrow> nat \<Rightarrow> int option" where
  "person_id B t = field_scalar 8 dec_int 0 B t 0"

definition person_name :: "byte list \<Rightarrow> nat \<Rightarrow> string option" where
  "person_name B t = field_string B t 1"

definition person_email :: "byte list \<Rightarrow> nat \<Rightarrow> string option" where
  "person_email B t = field_string B t 2"

definition person_age :: "byte list \<Rightarrow> nat \<Rightarrow> int option" where
  "person_age B t = field_scalar 4 dec_int 0 B t 3"

definition person_height :: "byte list \<Rightarrow> nat \<Rightarrow> js_number option" where
  "person_height B t = field_scalar 4 dec_f32 0 B t 4"

definition person_isVerified :: "byte list \<Rightarrow> nat \<Rightarrow> bool option" where
  "person_isVerified B t = field_scalar 1 dec_bool False B t 5"

definition person_skillsLength :: "byte list \<Rightarrow> nat \<Rightarrow> nat option" where
  "person_skillsLength B t = Option.bind (field_ref B t 6) (vector_len B)"

fun skills_item :: "byte list \<Rightarrow> nat \<Rightarrow> nat option \<Rightarrow> string option" where
  "skills_item B j None = Some []"
| "skills_item B j (Some vp) = string_ref B (vector_item vp j)"

definition person_skills :: "byte list \<Rightarrow> nat \<Rightarrow> nat \<Rightarrow> string option" where
  "person_skills B t j = Option.bind (field_ref B t 6) (skills_item B j)"

definition person_location :: "byte list \<Rightarrow> nat \<Rightarrow> nat option option" where
  "person_location B t = field_ref B t 7"

definition personList_personsLength :: "byte list \<Rightarrow> nat \<Rightarrow> nat option" where
  "personList_personsLength B t = Option.bind (field_ref B t 0) (vector_len B)"

fun persons_item :: "byte list \<Rightarrow> nat \<Rightarrow> nat option \<Rightarrow> nat option option" where
  "persons_item B i None = Some None"
| "persons_item B i (Some vp) = map_option Some (indirect B (vector_item vp i))"

definition personList_persons :: "byte list \<Rightarrow> nat \<Rightarrow> nat \<Rightarrow> nat option option" where
  "personList_persons B t i = Option.bind (field_ref B t 0) (persons_item B i)"

section \<open>Buffer Builder\<close>

text \<open>
  Modelled from the spec: the Buffer Builder (section 4.1; in the repository it is the
  \<open>flatbuffers\<close> package's \<open>Builder\<close>, which is not among the sources).  The buffer is
  written from the high end backward, so \<open>bytes\<close> is the written region, lowest
  address first, and writing prepends to it; the growable store around it (initial
  capacity, doubling, relocation) leaves the written region as it is and is not
  modelled.  An offset, as the builder returns it, is the distance of the object's
  start from the end of the buffer; it stays valid however much is written later.
  \<open>vtable\<close> and \<open>object_start\<close> are the field-accumulation frame of the open table,
  \<open>vtables\<close> the deduplication table (vtable content to its offset).
\<close>

record builder =
  bytes :: "byte list"
  minalign :: nat
  vtable :: "nat list"
  object_start :: nat
  vtables :: "(byte list \<times> nat) list"

definition new_builder :: builder where
  "new_builder = \<lparr> bytes = [], minalign = 1, vtable = [], object_start = 0, vtables = [] \<rparr>"

definition offset :: "builder \<Rightarrow> nat" where
  "offset b = length (bytes b)"

definition put :: "byte list \<Rightarrow> builder \<Rightarrow> builder" where
  "put bs b = b\<lparr>bytes := bs @ bytes b\<rparr>"

text \<open>
  Modelled from the spec: alignment.  Before \<open>additional\<close> bytes followed by a value of
  \<open>sz\<close> bytes are written, the buffer is padded so that the value will start at a
  multiple of \<open>sz\<close>; the builder tracks the largest alignment seen.
\<close>

definition align_pad :: "nat \<Rightarrow> nat \<Rightarrow> nat" where
  "align_pad sz n = (sz - n mod sz) mod sz"

definition prep :: "nat \<Rightarrow> nat \<Rightarrow> builder \<Rightarrow> builder" where
  "prep sz additional b =
     put (zeros (align_pad sz (offset b + additional))) (b\<lparr>minalign := max (minalign b) sz\<rparr>)"

definition addScalar :: "nat \<Rightarrow> byte list \<Rightarrow> builder \<Rightarrow> builder" where
  "addScalar w bs b = put bs (prep w 0 b)"

text \<open>
  Modelled from the spec: a reference is stored relative to the position of the field
  that holds it.
\<close>

definition putOffset :: "nat \<Rightarrow> builder \<Rightarrow> builder" where
  "putOffset off b = put (le_bytes 4 (offset b + 4 - off)) b"

definition addOffset :: "nat \<Rightarrow> builder \<Rightarrow> builder" where
  "addOffset off b = putOffset off (prep 4 0 b)"

definition with_offset :: "builder \<Rightarrow> builder \<times> nat" where
  "with_offset b = (b, offset b)"

definition startVector :: "nat \<Rightarrow> nat \<Rightarrow> nat \<Rightarrow> builder \<Rightarrow> builder" where
  "startVector elem_size num_elems alignment b =
     prep alignment (elem_size * num_elems) (prep 4 (elem_size * num_elems) b)"

definition endVector :: "nat \<Rightarrow> builder \<Rightarrow> builder \<times> nat" where
  "endVector num_elems b = with_offset (put (le_bytes 4 num_elems) b)"

text \<open>
  Modelled from the spec: \<open>createString(s)\<close> writes the length-prefixed bytes of \<open>s\<close>,
  aligned to the pointer size (4, the size of an offset) by padding.
\<close>

definition createString :: "string \<Rightarrow> builder \<Rightarrow> builder \<times> nat" where
  "createString s b =
     endVector (length s) (put (map byte_of_char s) (startVector 1 (length s) 1 b))"

text \<open>
  Modelled from the spec: \<open>createVectorOfOffsets(offsets)\<close> writes a length prefix
  followed by the given offsets, which refer to children written before.
\<close>

definition createVectorOfOffsets :: "nat list \<Rightarrow> builder \<Rightarrow> builder \<times> nat" where
  "createVectorOfOffsets offs b =
     endVector (length offs) (foldr addOffset offs (startVector 4 (length offs) 4 b))"

text \<open>
  Modelled from the spec: \<open>startTable\<close>, \<open>addField\<close> and \<open>endTable\<close>.  A field equal to
  its declared default is not stored.  \<open>endTable\<close> computes the minimal vtable (up to
  the highest present slot), reuses an identical vtable written before or writes a
  new one, and returns the table's offset.
\<close>

definition startTable :: "nat \<Rightarrow> builder \<Rightarrow> builder" where
  "startTable numfields b = b\<lparr>vtable := replicate numfields 0, object_start := offset b\<rparr>"

definition slot :: "nat \<Rightarrow> builder \<Rightarrow> builder" where
  "slot k b = b\<lparr>vtable := (vtable b)[k := offset b]\<rparr>"

definition addFieldScalar :: "nat \<Rightarrow> nat \<Rightarrow> byte list \<Rightarrow> bool \<Rightarrow> builder \<Rightarrow> builder" where
  "addFieldScalar k w bs is_default b = (if is_default then b else slot k (addScalar w bs b))"

definition addFieldOffset :: "nat \<Rightarrow> nat \<Rightarrow> builder \<Rightarrow> builder" where
  "addFieldOffset k off b = (if off = 0 then b else slot k (addOffset off b))"

definition trim :: "nat list \<Rightarrow> nat list" where
  "trim vt = rev (dropWhile (\<lambda>f. f = 0) (rev vt))"

definition vtable_slot :: "nat \<Rightarrow> nat \<Rightarrow> byte list" where
  "vtable_slot tloc f = le_bytes 2 (if f = 0 then 0 else tloc - f)"

definition vtable_bytes :: "nat list \<Rightarrow> nat \<Rightarrow> nat \<Rightarrow> byte list" where
  "vtable_bytes vt tloc ostart =
     le_bytes 2 (2 * length (trim vt) + 4) @ le_bytes 2 (tloc - ostart)
       @ concat (map (vtable_slot tloc) (trim vt))"

fun reuse_or_write :: "builder \<Rightarrow> nat \<Rightarrow> byte list \<Rightarrow> nat option \<Rightarrow> builder \<times> nat" where
  "reuse_or_write b tloc vb (Some existing) = (put (enc_int 4 (int existing - int tloc)) b, tloc)"
| "reuse_or_write b tloc vb None =
     (put vb (put (enc_int 4 (int (length vb))) b)\<lparr>vtables := (vb, tloc + length vb) # vtables b\<rparr>, tloc)"

definition finish_table :: "builder \<Rightarrow> nat \<Rightarrow> byte list \<Rightarrow> builder \<times> nat" where
  "finish_table b tloc vb = reuse_or_write b tloc vb (map_of (vtables b) vb)"

definition close_table :: "builder \<Rightarrow> builder \<times> nat" where
  "close_table b =
     finish_table b (offset b + 4) (vtable_bytes (vtable b) (offset b + 4) (object_start b))"

definition endTable :: "builder \<Rightarrow> builder \<times> nat" where
  "endTable b = close_table (prep 4 0 b)"

text \<open>
  Modelled from the spec: \<open>finish(rootOffset)\<close> pads the buffer head to the largest
  alignment seen and writes the root-offset pointer there; \<open>asUint8Array\<close> hands out
  the written region.
\<close>

definition finish :: "nat \<Rightarrow> builder \<Rightarrow> builder" where
  "finish root b = addOffset root (prep (minalign b) 4 b)"

definition asUint8Array :: "builder \<Rightarrow> byte list" where
  "asUint8Array b = bytes b"

subsection \<open>The builders of the schema's tables\<close>

text \<open>
  Modelled from the spec: the typed builder functions of \<open>Location\<close>, \<open>Person\<close> and
  \<open>PersonList\<close> (generated code, not among the sources), with the field kinds of the
  schema: \<open>id: long\<close>, \<open>age: int\<close>, \<open>height: float\<close>, \<open>is_verified: bool\<close>,
  \<open>latitude, longitude: double\<close>; every default is the type's zero.
\<close>

definition addLatitude :: "js_number \<Rightarrow> builder \<Rightarrow> builder" where
  "addLatitude x = addFieldScalar 0 8 (enc_f64 x) (num_is_zero x)"

definition addLongitude :: "js_number \<Rightarrow> builder \<Rightarrow> builder" where
  "addLongitude x = addFieldScalar 1 8 (enc_f64 x) (num_is_zero x)"

definition createLocation :: "js_number \<Rightarrow> js_number \<Rightarrow> builder \<Rightarrow> builder \<times> nat" where
  "createLocation lat lon b = endTable (addLongitude lon (addLatitude lat (startTable 2 b)))"

definition startPerson :: "builder \<Rightarrow> builder" where
  "startPerson = startTable 8"

definition addId :: "int \<Rightarrow> builder \<Rightarrow> builder" where
  "addId v = addFieldScalar 0 8 (enc_int 8 v) (v = 0)"

definition addName :: "nat \<Rightarrow> builder \<Rightarrow> builder" where
  "addName = addFieldOffset 1"

definition addEmail :: "nat \<Rightarrow> builder \<Rightarrow> builder" where
  "addEmail = addFieldOffset 2"

definition addAge :: "int \<Rightarrow> builder \<Rightarrow> builder" where
  "addAge v = addFieldScalar 3 4 (enc_int 4 v) (v = 0)"

definition addHeight :: "js_number \<Rightarrow> builder \<Rightarrow> builder" where
  "addHeight x = addFieldScalar 4 4 (enc_f32 x) (num_is_zero x)"

definition addIsVerified :: "bool \<Rightarrow> builder \<Rightarrow> builder" where
  "addIsVerified v = addFieldScalar 5 1 (enc_bool v) (\<not> v)"

definition addSkills :: "nat \<Rightarrow> builder \<Rightarrow> builder" where
  "addSkills = addFieldOffset 6"

definition addLocation :: "nat \<Rightarrow> builder \<Rightarrow> builder" where
  "addLocation = addFieldOffset 7"

definition endPerson :: "builder \<Rightarrow> builder \<times> nat" where
  "endPerson = endTable"

definition createSkillsVector :: "nat list \<Rightarrow> builder \<Rightarrow> builder \<times> nat" where
  "createSkillsVector = createVectorOfOffsets"

definition createPersonsVector :: "nat list \<Rightarrow> builder \<Rightarrow> builder \<times> nat" where
  "createPersonsVector = createVectorOfOffsets"

definition startPersonList :: "builder \<Rightarrow> builder" where
  "startPersonList = startTable 1"

definition addPersons :: "nat \<Rightarrow> builder \<Rightarrow> builder" where
  "addPersons = addFieldOffset 0"

definition endPersonList :: "builder \<Rightarrow> builder \<times> nat" where
  "endPersonList = endTable"

section \<open>Serializing and deserializing: the component\<close>

text \<open>
  \<open>serializeToFlatBuffer\<close> of \<open>FlatBufferDemo.vue\<close>: every string of a person first,
  the skills vector, the location, then the person's table; the vector of the persons
  and the root table last.  The builder calls are threaded through in the order of
  the source.
\<close>

fun create_strings :: "string list \<Rightarrow> builder \<Rightarrow> builder \<times> nat list" where
  "create_strings [] b = (b, [])"
| "create_strings (s # ss) b =
     (case createString s b of (b1, off) \<Rightarrow>
        case create_strings ss b1 of (b2, offs) \<Rightarrow> (b2, off # offs))"

definition person_table :: "person_obj \<Rightarrow> nat \<Rightarrow> nat \<Rightarrow> nat \<Rightarrow> nat \<Rightarrow> builder \<Rightarrow> builder \<times> nat" where
  "person_table p nameOffset emailOffset skillsVector locationOffset b =
     endPerson (addLocation locationOffset (addSkills skillsVector
       (addIsVerified (isVerified p) (addHeight (height p) (addAge (age p)
         (addEmail emailOffset (addName nameOffset (addId (id_val p) (startPerson b)))))))))"

definition build_person :: "person_obj \<Rightarrow> builder \<Rightarrow> builder \<times> nat" where
  "build_person p b =
     (case createString (name p) b of (b1, nameOffset) \<Rightarrow>
      case createString (email p) b1 of (b2, emailOffset) \<Rightarrow>
      case create_strings (skills p) b2 of (b3, skillsOffsets) \<Rightarrow>
      case createSkillsVector skillsOffsets b3 of (b4, skillsVector) \<Rightarrow>
      case createLocation (latitude (location p)) (longitude (location p)) b4 of (b5, locationOffset) \<Rightarrow>
        person_table p nameOffset emailOffset skillsVector locationOffset b5)"

fun build_persons :: "person_obj list \<Rightarrow> builder \<Rightarrow> builder \<times> nat list" where
  "build_persons [] b = (b, [])"
| "build_persons (p # ps) b =
     (case build_person p b of (b1, off) \<Rightarrow>
        case build_persons ps b1 of (b2, offs) \<Rightarrow> (b2, off # offs))"

definition build_list :: "person_obj list \<Rightarrow> builder" where
  "build_list ds =
     (case build_persons ds new_builder of (b1, personOffsets) \<Rightarrow>
      case createPersonsVector personOffsets b1 of (b2, personsVector) \<Rightarrow>
      case endPersonList (addPersons personsVector (startPersonList b2)) of (b3, root) \<Rightarrow>
        finish root b3)"

text \<open>
  Modelled from the spec: exceeding the maximum buffer size is a \<open>CapacityExceeded\<close>
  error.  The written region only grows, so the limit is passed at some write exactly
  when the finished buffer is beyond it.  The maximum is what 32-bit signed offsets
  can address.
\<close>

definition max_buffer_size :: nat where
  "max_buffer_size = 2 ^ 31 - 1"

definition checked :: "builder \<Rightarrow> error + byte list" where
  "checked b = (if max_buffer_size < offset b then Inl CapacityExceeded else Inr (asUint8Array b))"

definition flatbuffer_of :: "person_obj list \<Rightarrow> error + byte list" where
  "flatbuffer_of ds = checked (build_list ds)"

text \<open>
  \<open>deserializeFromFlatBuffer\<close> of \<open>FlatBufferDemo.vue\<close>, the traversal: every person of
  the root's vector becomes a plain object, through \<open>person.unpack()\<close> when the generated
  class has it and field by field otherwise.  The decoded objects carry an optional
  location: \<open>unpack\<close> leaves an absent location out, the field-by-field branch fills
  in zeros (\<open>person.location()?.latitude() ?? 0\<close>).
\<close>

type_synonym person_t = "location_obj option person_rec"

fun latitude_or_zero :: "byte list \<Rightarrow> nat option \<Rightarrow> js_number option" where
  "latitude_or_zero B None = Some 0"
| "latitude_or_zero B (Some lt) = location_latitude B lt"

fun longitude_or_zero :: "byte list \<Rightarrow> nat option \<Rightarrow> js_number option" where
  "longitude_or_zero B None = Some 0"
| "longitude_or_zero B (Some lt) = location_longitude B lt"

definition plain_location :: "byte list \<Rightarrow> nat \<Rightarrow> location_obj option" where
  "plain_location B t =
     do { loc1 \<leftarrow> person_location B t; la \<leftarrow> latitude_or_zero B loc1;
          loc2 \<leftarrow> person_location B t; lo \<leftarrow> longitude_or_zero B loc2;
          Some \<lparr> latitude = la, longitude = lo \<rparr> }"

definition read_skills :: "byte list \<Rightarrow> nat \<Rightarrow> nat \<Rightarrow> string list option" where
  "read_skills B t n = those (map (person_skills B t) [0..<n])"

definition plain_person :: "byte list \<Rightarrow> nat \<Rightarrow> person_t option" where
  "plain_person B t =
     do { i \<leftarrow> person_id B t;
          nm \<leftarrow> person_name B t;
          em \<leftarrow> person_email B t;
          ag \<leftarrow> person_age B t;
          h \<leftarrow> person_height B t;
          v \<leftarrow> person_isVerified B t;
          sk \<leftarrow> Option.bind (person_skillsLength B t) (read_skills B t);
          loc \<leftarrow> plain_location B t;
          Some \<lparr> id_val = i, name = nm, email = em, age = ag, height = h, isVerified = v,
                 skills = sk, location = Some loc \<rparr> }"

text \<open>
  Modelled from the spec: \<open>unpackAll(table)\<close>, the generated \<open>unpack()\<close>: an eager walk
  over every field that produces a plain-value tree.
\<close>

definition location_unpack :: "byte list \<Rightarrow> nat \<Rightarrow> location_obj option" where
  "location_unpack B lt =
     do { la \<leftarrow> location_latitude B lt; lo \<leftarrow> location_longitude B lt;
          Some \<lparr> latitude = la, longitude = lo \<rparr> }"

fun unpack_location :: "byte list \<Rightarrow> nat option \<Rightarrow> location_obj option option" where
  "unpack_location B None = Some None"
| "unpack_location B (Some lt) = map_option Some (location_unpack B lt)"

definition person_unpack :: "byte list \<Rightarrow> nat \<Rightarrow> person_t option" where
  "person_unpack B t =
     do { i \<leftarrow> person_id B t;
          nm \<leftarrow> person_name B t;
          em \<leftarrow> person_email B t;
          ag \<leftarrow> person_age B t;
          h \<leftarrow> person_height B t;
          v \<leftarrow> person_isVerified B t;
          sk \<leftarrow> Option.bind (person_skillsLength B t) (read_skills B t);
          loc \<leftarrow> Option.bind (person_location B t) (unpack_location B);
          Some \<lparr> id_val = i, name = nm, email = em, age = ag, height = h, isVerified = v,
                 skills = sk, location = loc \<rparr> }"

definition decode_person :: "bool \<Rightarrow> byte list \<Rightarrow> nat \<Rightarrow> person_t option" where
  "decode_person has_unpack B t = (if has_unpack then person_unpack B t else plain_person B t)"

fun decode_entry :: "bool \<Rightarrow> byte list \<Rightarrow> nat option \<Rightarrow> person_t option option" where
  "decode_entry has_unpack B None = Some None"
| "decode_entry has_unpack B (Some t) = map_option Some (decode_person has_unpack B t)"

definition decode_item :: "bool \<Rightarrow> byte list \<Rightarrow> nat \<Rightarrow> nat \<Rightarrow> person_t option option" where
  "decode_item has_unpack B root i =
     Option.bind (personList_persons B root i) (decode_entry has_unpack B)"

definition decode_persons :: "bool \<Rightarrow> byte list \<Rightarrow> nat \<Rightarrow> nat \<Rightarrow> person_t option list option" where
  "decode_persons has_unpack B root n = those (map (decode_item has_unpack B root) [0..<n])"

definition decode_root :: "bool \<Rightarrow> byte list \<Rightarrow> nat \<Rightarrow> person_t option list option" where
  "decode_root has_unpack B root =
     Option.bind (personList_personsLength B root) (decode_persons has_unpack B root)"

definition decode_list :: "bool \<Rightarrow> byte list \<Rightarrow> person_t option list option" where
  "decode_list has_unpack B = Option.bind (rootTable B) (decode_root has_unpack B)"

text \<open>The Reader's failure, as the error of the design.\<close>

definition reader_result :: "'a option \<Rightarrow> error + 'a" where
  "reader_result r = (case r of None \<Rightarrow> Inl CorruptBuffer | Some v \<Rightarrow> Inr v)"

definition unpackAll :: "bool \<Rightarrow> byte list \<Rightarrow> error + person_t option list" where
  "unpackAll has_unpack B = reader_result (decode_list has_unpack B)"

section \<open>The component's state and its four operations\<close>

text \<open>
  The reactive state of \<open>FlatBufferDemo.vue\<close>: the refs \<open>serializedData\<close>,
  \<open>deserializedData\<close>, \<open>jsonSerialized\<close>, \<open>jsonDeserialized\<close> and the reactive object
  \<open>performanceResults\<close>.  \<open>null\<close> is \<open>None\<close>.  What \<open>JSON.parse\<close> returns is left
  open (the type \<open>'j\<close>).  An operation takes the two readings of \<open>performance.now()\<close>
  as arguments; an exception thrown on the way leaves the state as it was and is the
  \<open>Inl\<close> result.
\<close>

record performance_results =
  serializeTime :: js_number
  deserializeTime :: js_number
  jsonSerializeTime :: js_number
  jsonDeserializeTime :: js_number
  flatbufferSize :: nat
  jsonSize :: nat

record 'j app_state =
  serializedData :: "byte list option"
  deserializedData :: "person_t option list option"
  jsonSerialized :: string
  jsonDeserialized :: "'j option"
  performanceResults :: performance_results

definition originalDataList :: "person_obj list" where
  "originalDataList = generateDataset 10000"

definition store_serialized :: "js_number \<Rightarrow> js_number \<Rightarrow> 'j app_state \<Rightarrow> byte list \<Rightarrow> 'j app_state" where
  "store_serialized startTime endTime s B =
     s\<lparr> serializedData := Some B,
        performanceResults := (performanceResults s)
          \<lparr> serializeTime := num_sub endTime startTime, flatbufferSize := length B \<rparr> \<rparr>"

definition serializeToFlatBuffer ::
    "person_obj list \<Rightarrow> js_number \<Rightarrow> js_number \<Rightarrow> 'j app_state \<Rightarrow> error + 'j app_state" where
  "serializeToFlatBuffer ds startTime endTime s =
     map_sum (\<lambda>e. e) (store_serialized startTime endTime s) (flatbuffer_of ds)"

definition store_deserialized ::
    "js_number \<Rightarrow> js_number \<Rightarrow> 'j app_state \<Rightarrow> person_t option list \<Rightarrow> 'j app_state" where
  "store_deserialized startTime endTime s persons =
     s\<lparr> deserializedData := Some persons,
        performanceResults := (performanceResults s)
          \<lparr> deserializeTime := num_sub endTime startTime \<rparr> \<rparr>"

text \<open>\<open>if (!serializedData.value) return;\<close> comes first: without a buffer nothing happens.\<close>

definition deserializeFromFlatBuffer ::
    "bool \<Rightarrow> js_number \<Rightarrow> js_number \<Rightarrow> 'j app_state \<Rightarrow> error + 'j app_state" where
  "deserializeFromFlatBuffer has_unpack startTime endTime s =
     (case serializedData s of
        None \<Rightarrow> Inr s
      | Some B \<Rightarrow> map_sum (\<lambda>e. e) (store_deserialized startTime endTime s) (unpackAll has_unpack B))"

text \<open>
  \<open>deserializeFromJson\<close>: \<open>if (!jsonSerialized.value) return;\<close> comes first, and the empty
  string is the falsy one.  \<open>parse\<close> stands for \<open>JSON.parse\<close>, \<open>None\<close> for its
  \<open>SyntaxError\<close>.
\<close>

definition store_parsed :: "js_number \<Rightarrow> js_number \<Rightarrow> 'j app_state \<Rightarrow> 'j \<Rightarrow> 'j app_state" where
  "store_parsed startTime endTime s v =
     s\<lparr> jsonDeserialized := Some v,
        performanceResults := (performanceResults s)
          \<lparr> jsonDeserializeTime := num_sub endTime startTime \<rparr> \<rparr>"

definition deserializeFromJson ::
    "(string \<Rightarrow> 'j option) \<Rightarrow> js_number \<Rightarrow> js_number \<Rightarrow> 'j app_state \<Rightarrow> error + 'j app_state" where
  "deserializeFromJson parse startTime endTime s =
     (if jsonSerialized s = [] then Inr s
      else (case parse (jsonSerialized s) of
              None \<Rightarrow> Inl SyntaxError
            | Some v \<Rightarrow> Inr (store_parsed startTime endTime s v)))"

section \<open>The generated dataset is a function of the index\<close>

lemma generate_loop_eq:
  "generate_loop k i dataset = dataset @ map dataset_record [i..<i + k]"
proof (induction k arbitrary: i dataset)
  case 0
  show ?case by simp
next
  case (Suc k)
  have "[i..<i + Suc k] = i # [Suc i..<Suc i + k]"
    by (simp add: upt_conv_Cons)
  with Suc show ?case by simp
qed

lemma generateDataset_eq: "generateDataset N = map dataset_record [0..<nat N]"
  by (simp add: generateDataset_def generate_loop_eq)

text \<open>
  C6.  \<open>generateDataset(N)\<close> has \<open>N\<close> records, and record \<open>i\<close> is the fixed function of
  \<open>i\<close> alone that the source writes down (id \<open>i + 1000000000000\<close>, name \<open>User${i}\<close>,
  email \<open>user${i}@example.com\<close>, age \<open>20 + i % 30\<close>, height \<open>1.6 + (i % 40) / 100\<close>,
  isVerified \<open>i % 3 === 0\<close>, skills \<open>JS\<close>, \<open>TS\<close>, \<open>Skill${i % 10}\<close>, latitude
  \<open>30 + (i % 100) / 100\<close>, longitude \<open>120 + (i % 100) / 100\<close>); in particular two calls
  with the same \<open>N\<close> return equal datasets, and the records do not depend on \<open>N\<close>.
\<close>

theorem generateDataset_index_derived:
  "length (generateDataset N) = nat N \<and>
   (\<forall>i < nat N.
      generateDataset N ! i =
        \<lparr> id_val = int i + 1000000000000,
          name = ''User'' @ decimal i,
          email = ''user'' @ decimal i @ ''@example.com'',
          age = 20 + int (i mod 30),
          height = num_add (num_of_frac 16 10) (num_div (num_of_int (int (i mod 40))) (num_of_int 100)),
          isVerified = (i mod 3 = 0),
          skills = [''JS'', ''TS'', ''Skill'' @ decimal (i mod 10)],
          location =
            \<lparr> latitude = num_add (num_of_int 30) (num_div (num_of_int (int (i mod 100))) (num_of_int 100)),
              longitude = num_add (num_of_int 120) (num_div (num_of_int (int (i mod 100))) (num_of_int 100)) \<rparr> \<rparr>)"
  by (simp add: generateDataset_eq dataset_record_def)

lemma flog2_acc_numeral:
  "flog2_acc (numeral k) a = (if numeral k < (2::nat) then a else flog2_acc (numeral k div 2) (a + 1))"
  by (rule flog2_acc.simps)

lemma flog2_acc_one: "flog2_acc 1 a = a" "flog2_acc 0 a = a" "flog2_acc (Suc 0) a = a"
  by (simp_all add: flog2_acc.simps)

lemma decimal_numeral:
  "decimal (numeral k) = (if numeral k < (10::nat) then [digit_char (numeral k)]
                          else decimal (numeral k div 10) @ [digit_char (numeral k mod 10)])"
  by (rule decimal.simps)

lemma decimal_digit: "decimal 0 = ''0''" "decimal 1 = ''1''" "decimal (Suc 0) = ''1''"
  by (simp_all add: decimal.simps digit_char_def)

lemmas number_eval =
  num_of_frac_def fp_round_def fp_round_at_def fp_emin_def ilog2_def ilog2_near_def flog2_def
  flog2_acc_numeral flog2_acc_one round_half_even_def scaled_le_def num_make_def fp_mantissa_def
  num_of_int_def num_add_def num_neg_def num_sub_def num_div_def num_is_nan_def num_is_inf_def
  num_sign_def num_mag_def num_inf_bits_def num_is_zero_def num_value_def fp_value_def fp_scale_def
  signed_def num_nan_def f32_of_num_def num_of_f32_def fround_def f32_make_def f32_inf_bits_def
  f32_sign_def f32_mag_def

lemmas dataset_eval = dataset_record_def decimal_numeral decimal_digit digit_char_def

theorem generateDataset_index_derived_witness:
  "length (generateDataset 3) = 3 \<and>
   generateDataset 3 ! 2 =
     \<lparr> id_val = 1000000000002, name = ''User2'', email = ''user2@example.com'', age = 22,
       height = 0x3FF9EB851EB851EC, isVerified = False, skills = [''JS'', ''TS'', ''Skill2''],
       location = \<lparr> latitude = 0x403E051EB851EB85, longitude = 0x405E0147AE147AE1 \<rparr> \<rparr>"
proof -
  have "(2::nat) < nat 3" by simp
  with generateDataset_index_derived [of 3] have
    "length (generateDataset 3) = 3 \<and> generateDataset 3 ! 2 = dataset_record 2"
    by (simp add: dataset_record_def)
  moreover have "dataset_record 2 =
     \<lparr> id_val = 1000000000002, name = ''User2'', email = ''user2@example.com'', age = 22,
       height = 0x3FF9EB851EB851EC, isVerified = False, skills = [''JS'', ''TS'', ''Skill2''],
       location = \<lparr> latitude = 0x403E051EB851EB85, longitude = 0x405E0147AE147AE1 \<rparr> \<rparr>"
    by (simp add: dataset_eval number_eval)
  ultimately show ?thesis by simp
qed

section \<open>Nothing to deserialize: the early return\<close>

text \<open>
  C10.  When no serialized data exists (\<open>serializedData\<close> is \<open>null\<close>, respectively
  \<open>jsonSerialized\<close> is the empty string), the deserialize operation returns at once and
  the state it leaves is the state it found: \<open>deserializedData\<close>, \<open>jsonDeserialized\<close> and
  every field of \<open>performanceResults\<close> keep their values.
\<close>

theorem deserialize_without_data_is_noop:
  "(serializedData s = None \<longrightarrow> deserializeFromFlatBuffer has_unpack t0 t1 s = Inr s) \<and>
   (jsonSerialized s = [] \<longrightarrow> deserializeFromJson parse t0 t1 s = Inr s)"
  by (simp add: deserializeFromFlatBuffer_def deserializeFromJson_def)

definition initial_state :: "'j app_state" where
  "initial_state =
     \<lparr> serializedData = None, deserializedData = None, jsonSerialized = [], jsonDeserialized = None,
       performanceResults =
         \<lparr> serializeTime = 0, deserializeTime = 0, jsonSerializeTime = 0,
           jsonDeserializeTime = 0, flatbufferSize = 0, jsonSize = 0 \<rparr> \<rparr>"

theorem deserialize_without_data_is_noop_witness:
  "deserializeFromFlatBuffer True 0 0 (initial_state :: unit app_state) = Inr initial_state \<and>
   deserializeFromJson (\<lambda>s. Some ()) 0 0 (initial_state :: unit app_state) = Inr initial_state"
proof -
  have "serializedData (initial_state :: unit app_state) = None"
    and "jsonSerialized (initial_state :: unit app_state) = []"
    by (simp_all add: initial_state_def)
  then show ?thesis
    using deserialize_without_data_is_noop [of "initial_state :: unit app_state" True 0 0 "\<lambda>s. Some ()"]
    by simp
qed

end
